theory Spec2Isabelle
  imports Complex_Main "HOL-Library.Word" "HOL-Library.AList"
begin

section \<open>The diary service of Dandi: mood classification, summary, save and update\<close>

text \<open>
  A shallow embedding of \<^verbatim>\<open>DiariesService\<close> (backend, \<^verbatim>\<open>diaries.service.ts\<close>).
  The service is asynchronous but sequential: every \<^verbatim>\<open>await\<close> finishes before the next
  statement runs, so a method is a function from the state of the outside world to a
  result and the new state. A rejected promise or a thrown exception is the \<open>Inl\<close>
  branch of the result.
\<close>

subsection \<open>Values\<close>

text \<open>
  A JavaScript string is a sequence of UTF-16 code units; \<^verbatim>\<open>length\<close>, \<^verbatim>\<open>slice\<close>,
  \<^verbatim>\<open>substring\<close> and a regular expression without the \<^verbatim>\<open>u\<close> flag all count code units.
\<close>

type_synonym jsstring = "16 word list"

text \<open>
  \<^verbatim>\<open>MoodType\<close> and \<^verbatim>\<open>MoodDegree\<close> are imported from \<^verbatim>\<open>utils/diaries.constant\<close>.
  Modelled from the spec: the sentiment categories are the closed set POSITIVE, NEGATIVE,
  NEUTRAL, and a mood degree is one of the five values SO_BAD, BAD, SO_SO, GOOD, SO_GOOD.
\<close>

datatype MoodType = POSITIVE | NEGATIVE | NEUTRAL

datatype MoodDegree = SO_BAD | BAD | SO_SO | GOOD | SO_GOOD

text \<open>
  Numbers are doubles in the source. Here the scores of the sentiment service and their
  sums are rationals, added and divided exactly: rounding is not modelled. A quotient is a
  rational, or one of the three values IEEE division gives for a zero divisor.
\<close>

type_synonym number = rat

datatype quotient = Finite rat | Infinity | NegInfinity | NaN

definition divide_js :: "number \<Rightarrow> nat \<Rightarrow> quotient" where
  "divide_js a b =
     (if b \<noteq> 0 then Finite (a / of_nat b)
      else if 0 < a then Infinity
      else if a < 0 then NegInfinity
      else NaN)"

fun greater_js :: "quotient \<Rightarrow> number \<Rightarrow> bool" where
  "greater_js (Finite x) c = (c < x)"
| "greater_js Infinity c = True"
| "greater_js NegInfinity c = False"
| "greater_js NaN c = False"

text \<open>
  Other values (request bodies, decoded JSON, entities): an object is the list of its
  own properties in insertion order. A member of \<^verbatim>\<open>MoodDegree\<close> is kept as such.
\<close>

datatype jsval =
    Undefined
  | Null
  | Bool bool
  | Num number
  | Str jsstring
  | Enum MoodDegree
  | Arr "jsval list"
  | Obj "(string \<times> jsval) list"

type_synonym object = "(string \<times> jsval) list"

datatype error =
    FetchError
  | TypeError
  | BadRequestException
  | ForbiddenException
  | TagsError

text \<open>\<^verbatim>\<open>o[key]\<close> on an object: the property, or \<^verbatim>\<open>undefined\<close>.\<close>

definition get_prop :: "object \<Rightarrow> string \<Rightarrow> jsval" where
  "get_prop ob key = (case map_of ob key of None \<Rightarrow> Undefined | Some v \<Rightarrow> v)"

text \<open>
  \<^verbatim>\<open>o[key] = v\<close>: an existing property keeps its place, a new one goes last (JavaScript
  lists integer-like keys first; no property named here is one, and nothing below depends
  on the order).
\<close>

definition set_prop :: "string \<Rightarrow> jsval \<Rightarrow> object \<Rightarrow> object" where
  "set_prop key v ob = AList.update key v ob"

text \<open>
  \<^verbatim>\<open>v.key\<close> on any value: a \<^verbatim>\<open>TypeError\<close> on \<^verbatim>\<open>undefined\<close> and \<^verbatim>\<open>null\<close>, the property
  on an object, \<^verbatim>\<open>undefined\<close> otherwise (none of the names read here is a property of a
  primitive or of an array).
\<close>

fun read_property :: "jsval \<Rightarrow> string \<Rightarrow> error + jsval" where
  "read_property Undefined key = Inl TypeError"
| "read_property Null key = Inl TypeError"
| "read_property (Obj ob) key = Inr (get_prop ob key)"
| "read_property v key = Inr Undefined"

text \<open>Truthiness, as \<^verbatim>\<open>if (v)\<close> tests it (a member of \<^verbatim>\<open>MoodDegree\<close> is a non-empty string).\<close>

fun truthy :: "jsval \<Rightarrow> bool" where
  "truthy Undefined = False"
| "truthy Null = False"
| "truthy (Bool b) = b"
| "truthy (Num x) = (x \<noteq> 0)"
| "truthy (Str s) = (s \<noteq> [])"
| "truthy v = True"

subsection \<open>The outside world\<close>

text \<open>
  The world records what the service sent out: the contents posted to the sentiment
  endpoint, the (title, content) documents posted to the summary endpoint, and the
  entities handed to \<^verbatim>\<open>diariesRepository.save\<close>, each in order.
\<close>

record world =
  sentimentRequests :: "jsstring list"
  summaryRequests :: "(jsval \<times> jsstring) list"
  saved :: "object list"

text \<open>
  What the outside answers. An answer may depend on the requests made before it.
  \<^item> \<open>clovaSentiment\<close>: \<^verbatim>\<open>fetch(CLOVA_SENTIMENT_URL)\<close>, \<^verbatim>\<open>response.json()\<close> and the read of
    \<^verbatim>\<open>jsonResponse.document.confidence\<close>, typed \<^verbatim>\<open>Record<string, number>\<close>: a rejected
    fetch, a body that is not JSON or a missing \<^verbatim>\<open>document\<close> raise.
  \<^item> \<open>clovaSummary\<close>: the fetch of the summary endpoint and \<^verbatim>\<open>response.json()\<close>: the
    decoded body, whatever the status of the response.
  \<^item> \<open>mapTagNameToTagType\<close> of the tags service, \<open>findById\<close> of the repository
    (\<open>None\<close> is \<^verbatim>\<open>null\<close>: there is no such diary).
  \<^item> \<open>DiaryStatus_PRIVATE\<close>: the member \<^verbatim>\<open>PRIVATE\<close> of \<^verbatim>\<open>DiaryStatus\<close> (\<^verbatim>\<open>entity/diaryStatus\<close>).
\<close>

type_synonym analysis = "(MoodType \<times> number) list"

record services =
  clovaSentiment :: "jsstring list \<Rightarrow> jsstring \<Rightarrow> error + analysis"
  clovaSummary :: "(jsval \<times> jsstring) list \<Rightarrow> jsval \<times> jsstring \<Rightarrow> error + jsval"
  mapTagNameToTagType :: "jsval \<Rightarrow> error + jsval"
  findById :: "nat \<Rightarrow> object option"
  DiaryStatus_PRIVATE :: jsval

type_synonym 'a io = "world \<Rightarrow> (error + 'a) \<times> world"

subsection \<open>Mood analysis\<close>

text \<open>
  \<^verbatim>\<open>fullContent.replace(/<img[^>]*>/g, '')\<close>: scanning from the left, every occurrence of
  \<^verbatim>\<open><img\<close> that has a \<^verbatim>\<open>>\<close> somewhere after it is removed up to and including the first
  such \<^verbatim>\<open>>\<close>, and the scan goes on after it. Where \<^verbatim>\<open><img\<close> has no \<^verbatim>\<open>>\<close> after it the
  match fails and the scan moves one unit on.
\<close>

definition img_open :: jsstring where
  "img_open = [0x3C, 0x69, 0x6D, 0x67]"

definition tag_close :: "16 word" where
  "tag_close = 0x3E"

function replace_img :: "jsstring \<Rightarrow> jsstring" where
  "replace_img [] = []"
| "replace_img (c # cs) =
     (if take 4 (c # cs) = img_open then
        (case dropWhile (\<lambda>x. x \<noteq> tag_close) (drop 4 (c # cs)) of
           [] \<Rightarrow> c # replace_img cs
         | g # rest \<Rightarrow> replace_img rest)
      else c # replace_img cs)"
  by pat_completeness auto
termination
proof (relation "measure length")
  fix c :: "16 word" and cs g rest
  assume "dropWhile (\<lambda>x. x \<noteq> tag_close) (drop 4 (c # cs)) = g # rest"
  then have "length (g # rest) \<le> length (drop 4 (c # cs))"
    using length_dropWhile_le [of "\<lambda>x. x \<noteq> tag_close" "drop 4 (c # cs)"] by simp
  then show "(rest, c # cs) \<in> measure length" by simp
qed simp_all

text \<open>\<^verbatim>\<open>s.slice(start, end)\<close> for indices that are not negative.\<close>

definition slice_js :: "jsstring \<Rightarrow> nat \<Rightarrow> nat \<Rightarrow> jsstring" where
  "slice_js s start end = drop start (take end s)"

text \<open>\<^verbatim>\<open>analyzeMood\<close>: one request to the sentiment endpoint.\<close>

definition analyzeMood :: "services \<Rightarrow> jsstring \<Rightarrow> analysis io" where
  "analyzeMood sv content w =
     (clovaSentiment sv (sentimentRequests w) content,
      w\<lparr>sentimentRequests := sentimentRequests w @ [content]\<rparr>)"

text \<open>
  The statistics object \<^verbatim>\<open>moodStatistics\<close>, with its three keys in the order of the
  literal, and \<^verbatim>\<open>moodStatistics[key] += analysis[key]\<close> for every key of the analysis.
  Both reads find their key: the statistics hold every category, and the key is one of
  the analysis.
\<close>

definition moodStatistics0 :: analysis where
  "moodStatistics0 = [(POSITIVE, 0), (NEGATIVE, 0), (NEUTRAL, 0)]"

definition entry :: "analysis \<Rightarrow> MoodType \<Rightarrow> number" where
  "entry a key = (case map_of a key of None \<Rightarrow> 0 | Some x \<Rightarrow> x)"

definition add_analysis :: "analysis \<Rightarrow> analysis \<Rightarrow> analysis" where
  "add_analysis moodStatistics analysis =
     foldl (\<lambda>ms key. AList.update key (entry ms key + entry analysis key) ms)
       moodStatistics (map fst analysis)"

text \<open>The loop of \<^verbatim>\<open>sumMoodAnalysis\<close>, from index \<open>i\<close> on.\<close>

function sum_loop ::
  "services \<Rightarrow> jsstring \<Rightarrow> nat \<Rightarrow> nat \<Rightarrow> analysis \<Rightarrow> analysis io" where
  "sum_loop sv plainContent numberOfChunk i moodStatistics w =
     (if i < numberOfChunk then
        (let start = i * 1000;
             end = (if i < numberOfChunk - 1 then start + 1000
                    else start + length plainContent mod 1000)
         in if start = end then (Inr moodStatistics, w)
            else (case analyzeMood sv (slice_js plainContent start end) w of
                    (Inl e, w') \<Rightarrow> (Inl e, w')
                  | (Inr analysis, w') \<Rightarrow>
                      sum_loop sv plainContent numberOfChunk (i + 1)
                        (add_analysis moodStatistics analysis) w'))
      else (Inr moodStatistics, w))"
  by pat_completeness auto
termination
  by (relation "measure (\<lambda>(sv, plainContent, numberOfChunk, i, moodStatistics, w).
        numberOfChunk - i)") auto

definition sumMoodAnalysis :: "services \<Rightarrow> jsstring \<Rightarrow> (analysis \<times> nat) io" where
  "sumMoodAnalysis sv fullContent w =
     (let plainContent = replace_img fullContent;
          numberOfChunk = length plainContent div 1000 + 1
      in case sum_loop sv plainContent numberOfChunk 0 moodStatistics0 w of
           (Inl e, w') \<Rightarrow> (Inl e, w')
         | (Inr moodStatistics, w') \<Rightarrow> (Inr (moodStatistics, numberOfChunk), w'))"

text \<open>
  \<^verbatim>\<open>Object.entries(statistics).reduce((max, cur) => cur[1] > max[1] ? cur : max)\<close>:
  with no initial value the first entry starts the reduction, and an empty array raises.
\<close>

definition reduce_max :: "analysis \<Rightarrow> error + MoodType \<times> number" where
  "reduce_max entries =
     (case entries of
        [] \<Rightarrow> Inl TypeError
      | first # others \<Rightarrow>
          Inr (foldl (\<lambda>max cur. if snd max < snd cur then cur else max) first others))"

text \<open>The \<^verbatim>\<open>switch\<close> of \<^verbatim>\<open>judgeOverallMood\<close> on the winning category and the figure.\<close>

definition mood_of :: "MoodType \<Rightarrow> quotient \<Rightarrow> MoodDegree" where
  "mood_of type figure =
     (case type of
        POSITIVE \<Rightarrow> if greater_js figure 50 then SO_GOOD else GOOD
      | NEGATIVE \<Rightarrow> if greater_js figure 50 then SO_BAD else BAD
      | _ \<Rightarrow> SO_SO)"

definition judgeOverallMood :: "services \<Rightarrow> jsstring \<Rightarrow> MoodDegree io" where
  "judgeOverallMood sv fullContent w =
     (case sumMoodAnalysis sv fullContent w of
        (Inl e, w') \<Rightarrow> (Inl e, w')
      | (Inr (statistics, totalNumber), w') \<Rightarrow>
          (case reduce_max statistics of
             Inl e \<Rightarrow> (Inl e, w')
           | Inr (type, summed) \<Rightarrow>
               (let figure = divide_js summed totalNumber
                in (Inr (mood_of type figure), w'))))"

subsection \<open>Summary\<close>

text \<open>
  A method of \<^verbatim>\<open>String\<close> called on a value: a \<^verbatim>\<open>TypeError\<close> unless the value is a string
  (\<^verbatim>\<open>substring\<close> and \<^verbatim>\<open>replace\<close> exist on strings only).
\<close>

fun as_string :: "jsval \<Rightarrow> error + jsstring" where
  "as_string (Str s) = Inr s"
| "as_string v = Inl TypeError"

text \<open>
  \<^verbatim>\<open>getSummary\<close>: the content is cut to its first 2000 units, the document is posted,
  and \<^verbatim>\<open>body.summary\<close> is returned as it is.
\<close>

definition getSummary :: "services \<Rightarrow> jsval \<Rightarrow> jsval \<Rightarrow> jsval io" where
  "getSummary sv title content w =
     (case as_string content of
        Inl e \<Rightarrow> (Inl e, w)
      | Inr s \<Rightarrow>
          (let content = take 2000 s;
               w' = w\<lparr>summaryRequests := summaryRequests w @ [(title, content)]\<rparr>
           in case clovaSummary sv (summaryRequests w) (title, content) of
                Inl e \<Rightarrow> (Inl e, w')
              | Inr body \<Rightarrow> (read_property body ''summary'', w')))"

text \<open>\<^verbatim>\<open>judgeOverallMood\<close> called on a value: \<^verbatim>\<open>fullContent.replace\<close> needs a string.\<close>

definition judgeOverallMood_of :: "services \<Rightarrow> jsval \<Rightarrow> MoodDegree io" where
  "judgeOverallMood_of sv fullContent w =
     (case as_string fullContent of
        Inl e \<Rightarrow> (Inl e, w)
      | Inr s \<Rightarrow> judgeOverallMood sv s w)"

subsection \<open>Saving and updating a diary\<close>

text \<open>\<^verbatim>\<open>diariesRepository.save(diary)\<close>: the entity is handed over and returned.\<close>

definition save :: "object \<Rightarrow> object io" where
  "save diary w = (Inr diary, w\<lparr>saved := saved w @ [diary]\<rparr>)"

text \<open>
  \<^verbatim>\<open>plainToClass(Diary, dto, {excludePrefixes: ['tag']})\<close>: the properties of the DTO
  whose names do not start with \<^verbatim>\<open>tag\<close>. Only the top level is filtered here; the
  library also filters nested objects and skips \<^verbatim>\<open>constructor\<close> and \<^verbatim>\<open>__proto__\<close>. The
  title and the content, which are all that is read below, are copied as they are.
\<close>

definition plainToClass :: "object \<Rightarrow> object" where
  "plainToClass dto = filter (\<lambda>(key, v). take 3 key \<noteq> ''tag'') dto"

definition saveDiary :: "services \<Rightarrow> object \<Rightarrow> object \<Rightarrow> unit io" where
  "saveDiary sv user createDiaryDto w =
     (case mapTagNameToTagType sv (get_prop createDiaryDto ''tagNames'') of
        Inl e \<Rightarrow> (Inl e, w)
      | Inr tags \<Rightarrow>
          (let diary = plainToClass createDiaryDto;
               diary = set_prop ''author'' (Obj user) diary;
               diary = set_prop ''tags'' tags diary
           in case getSummary sv (get_prop diary ''title'') (get_prop diary ''content'') w of
                (Inl e, w1) \<Rightarrow> (Inl e, w1)
              | (Inr summary, w1) \<Rightarrow>
                  (let diary = set_prop ''summary'' summary diary
                   in case judgeOverallMood_of sv (get_prop diary ''content'') w1 of
                        (Inl e, w2) \<Rightarrow> (Inl e, w2)
                      | (Inr mood, w2) \<Rightarrow>
                          (let diary = set_prop ''mood'' (Enum mood) diary
                           in case save diary w2 of
                                (Inl e, w3) \<Rightarrow> (Inl e, w3)
                              | (Inr d, w3) \<Rightarrow> (Inr (), w3)))))"

text \<open>
  \<^verbatim>\<open>===\<close>: primitives are compared by value; objects and arrays by reference, and no
  two values compared here are the same object.
\<close>

fun strict_eq :: "jsval \<Rightarrow> jsval \<Rightarrow> bool" where
  "strict_eq (Arr xs) v = False"
| "strict_eq (Obj ob) v = False"
| "strict_eq u v = (u = v)"

text \<open>
  \<^verbatim>\<open>existsDiary\<close>, \<^verbatim>\<open>checkAuthorization\<close> and \<^verbatim>\<open>findDiary\<close>. Reading \<^verbatim>\<open>diary.author\<close>
  of \<^verbatim>\<open>null\<close> would be a \<^verbatim>\<open>TypeError\<close>; \<^verbatim>\<open>existsDiary\<close> has raised before.
\<close>

definition existsDiary :: "object option \<Rightarrow> error + unit" where
  "existsDiary diary = (case diary of None \<Rightarrow> Inl BadRequestException | Some d \<Rightarrow> Inr ())"

definition checkAuthorization ::
  "services \<Rightarrow> jsval \<Rightarrow> object \<Rightarrow> jsval \<Rightarrow> bool \<Rightarrow> error + unit" where
  "checkAuthorization sv author user status readMode =
     (if \<not> readMode \<or> strict_eq status (DiaryStatus_PRIVATE sv) then
        (case read_property author ''id'' of
           Inl e \<Rightarrow> Inl e
         | Inr authorId \<Rightarrow>
             if \<not> strict_eq authorId (get_prop user ''id'') then Inl ForbiddenException
             else Inr ())
      else Inr ())"

definition findDiary :: "services \<Rightarrow> object \<Rightarrow> nat \<Rightarrow> bool \<Rightarrow> error + object" where
  "findDiary sv user diaryId readMode =
     (case existsDiary (findById sv diaryId) of
        Inl e \<Rightarrow> Inl e
      | Inr u \<Rightarrow>
          (case findById sv diaryId of
             None \<Rightarrow> Inl TypeError
           | Some diary \<Rightarrow>
               (let author = get_prop diary ''author''
                in case checkAuthorization sv author user (get_prop diary ''status'')
                          readMode of
                     Inl e \<Rightarrow> Inl e
                   | Inr u \<Rightarrow> Inr diary)))"

text \<open>
  The loop of \<^verbatim>\<open>updateDiary\<close> over \<^verbatim>\<open>Object.keys(updateDiaryDto)\<close>: a property of the DTO
  is copied when its value is truthy.
\<close>

definition copy_truthy :: "object \<Rightarrow> object \<Rightarrow> object" where
  "copy_truthy updateDiaryDto existingDiary =
     foldl (\<lambda>diary key.
              if truthy (get_prop updateDiaryDto key)
              then set_prop key (get_prop updateDiaryDto key) diary
              else diary)
       existingDiary (map fst updateDiaryDto)"

definition updateDiary :: "services \<Rightarrow> nat \<Rightarrow> object \<Rightarrow> object \<Rightarrow> object io" where
  "updateDiary sv diaryId user updateDiaryDto w =
     (case findDiary sv user diaryId False of
        Inl e \<Rightarrow> (Inl e, w)
      | Inr existingDiary \<Rightarrow>
          (case mapTagNameToTagType sv (get_prop updateDiaryDto ''tagNames'') of
             Inl e \<Rightarrow> (Inl e, w)
           | Inr tags \<Rightarrow>
               (let existingDiary = set_prop ''tags'' tags existingDiary;
                    existingDiary = copy_truthy updateDiaryDto existingDiary
                in if truthy (get_prop updateDiaryDto ''content'') then
                     (case getSummary sv (get_prop existingDiary ''title'')
                             (get_prop updateDiaryDto ''content'') w of
                        (Inl e, w1) \<Rightarrow> (Inl e, w1)
                      | (Inr summary, w1) \<Rightarrow>
                          (let existingDiary = set_prop ''summary'' summary existingDiary
                           in case judgeOverallMood_of sv
                                     (get_prop updateDiaryDto ''content'') w1 of
                                (Inl e, w2) \<Rightarrow> (Inl e, w2)
                              | (Inr mood, w2) \<Rightarrow>
                                  save (set_prop ''mood'' (Enum mood) existingDiary) w2))
                   else save existingDiary w)))"


subsection \<open>Example inputs\<close>

text \<open>
  A world in which nothing has been sent yet; services that answer every sentiment
  request with the same scores and every summary request with the same body, map tag
  names to themselves and hold no diary; the text \<^verbatim>\<open><img>\<close>.
\<close>

definition world0 :: world where
  "world0 = \<lparr>sentimentRequests = [], summaryRequests = [], saved = []\<rparr>"

definition constant_services :: "analysis \<Rightarrow> jsval \<Rightarrow> services" where
  "constant_services a body =
     \<lparr>clovaSentiment = (\<lambda>history content. Inr a),
      clovaSummary = (\<lambda>history document. Inr body),
      mapTagNameToTagType = (\<lambda>tagNames. Inr tagNames),
      findById = (\<lambda>diaryId. None),
      DiaryStatus_PRIVATE = Str [0x70]\<rparr>"

definition img_only :: jsstring where
  "img_only = [0x3C, 0x69, 0x6D, 0x67, 0x3E]"

text \<open>
  A text of \<open>n\<close> letters \<^verbatim>\<open>a\<close>; the three scores of one analysis; a user, a diary of
  that user and services that hold it under the id 5; services whose summary endpoint
  cannot be reached; a DTO with a title, a content and no tag.
\<close>

definition text_of_length :: "nat \<Rightarrow> jsstring" where
  "text_of_length n = replicate n 0x61"

definition scores :: "number \<Rightarrow> number \<Rightarrow> number \<Rightarrow> analysis" where
  "scores p n u = [(POSITIVE, p), (NEGATIVE, n), (NEUTRAL, u)]"

definition example_user :: object where
  "example_user = [(''id'', Num 7)]"

definition example_diary :: object where
  "example_diary =
     [(''id'', Num 5), (''title'', Str [0x61]), (''content'', Str [0x62]),
      (''status'', Str [0x70]), (''author'', Obj [(''id'', Num 7)]),
      (''tags'', Arr [Str [0x74]]), (''summary'', Str [0x73]), (''mood'', Enum SO_BAD)]"

definition diary_services :: services where
  "diary_services =
     (constant_services (scores 60 10 5) Null)
       \<lparr>findById := (\<lambda>diaryId. if diaryId = 5 then Some example_diary else None)\<rparr>"

definition failing_summary_services :: services where
  "failing_summary_services =
     (constant_services (scores 60 10 5) Null)
       \<lparr>clovaSummary := (\<lambda>history document. Inl FetchError)\<rparr>"

definition example_dto :: object where
  "example_dto =
     [(''title'', Str (text_of_length 2)), (''content'', Str (text_of_length 3)),
      (''tagNames'', Arr [])]"

text \<open>
  The body of a response that carries an error and no summary; a DTO whose content is the
  empty string.
\<close>

definition error_body :: jsval where
  "error_body = Obj [(''error'', Str [0x45])]"

definition update_dto :: object where
  "update_dto =
     [(''title'', Str (text_of_length 2)), (''content'', Str []), (''tagNames'', Arr [])]"

text \<open>A DTO with no content, no tag names and a summary of its own.\<close>

definition summary_dto :: object where
  "summary_dto = [(''content'', Null), (''summary'', Str [0x7A])]"

section \<open>Properties of the loop of \<^verbatim>\<open>sumMoodAnalysis\<close>\<close>

text \<open>The loop is unfolded one iteration at a time, at a chosen index.\<close>

declare sum_loop.simps [simp del]


lemma sum_loop_done:
  "\<not> i < N \<Longrightarrow> sum_loop sv p N i ms w = (Inr ms, w)"
  by (simp add: sum_loop.simps)

lemma drop_take_append_drop:
  "a \<le> b \<Longrightarrow> b \<le> length p \<Longrightarrow> drop a (take b p) @ drop b p = drop a p"
proof -
  assume ab: "a \<le> b" and bp: "b \<le> length p"
  have "drop a p = drop a (take b p @ drop b p)" by simp
  also have "\<dots> = drop a (take b p) @ drop (a - length (take b p)) (drop b p)"
    by (rule drop_append)
  also have "\<dots> = drop a (take b p) @ drop b p" using ab bp by simp
  finally show ?thesis by simp
qed

lemma sum_loop_chunks:
  assumes "sum_loop sv p N i ms w = (Inr ms', w')"
    and "N = length p div 1000 + 1"
    and "i * 1000 \<le> length p"
  shows "\<exists>cs. sentimentRequests w' = sentimentRequests w @ cs
           \<and> concat cs = drop (i * 1000) p
           \<and> length cs = (length p - i * 1000 + 999) div 1000
           \<and> (\<forall>c\<in>set cs. 0 < length c \<and> length c \<le> 1000)"
  using assms
proof (induction "N - i" arbitrary: i ms w)
  case 0
  then show ?case by simp
next
  case (Suc k)
  let ?n = "length p"
  have iN: "i < N" using Suc.hyps(2) by simp
  show ?case
  proof (cases "i < N - 1")
    case True
    then have full: "i * 1000 + 1000 \<le> ?n" using Suc.prems(2) by simp
    obtain r w1 where an: "analyzeMood sv (slice_js p (i * 1000) (i * 1000 + 1000)) w = (r, w1)"
      by (cases "analyzeMood sv (slice_js p (i * 1000) (i * 1000 + 1000)) w")
    have w1: "sentimentRequests w1 = sentimentRequests w @ [slice_js p (i * 1000) (i * 1000 + 1000)]"
      using an by (auto simp: analyzeMood_def)
    from Suc.prems(1) iN True an obtain a where
      rec: "sum_loop sv p N (i + 1) (add_analysis ms a) w1 = (Inr ms', w')"
      by (cases r) (auto simp: sum_loop.simps [of sv p N i] Let_def)
    have "k = N - (i + 1)" using Suc.hyps(2) by simp
    from Suc.hyps(1) [OF this rec Suc.prems(2)] full
    obtain cs where cs: "sentimentRequests w' = sentimentRequests w1 @ cs"
      "concat cs = drop ((i + 1) * 1000) p"
      "length cs = (?n - (i + 1) * 1000 + 999) div 1000"
      "\<forall>c\<in>set cs. 0 < length c \<and> length c \<le> 1000"
      by auto
    let ?c = "slice_js p (i * 1000) (i * 1000 + 1000)"
    have lc: "length ?c = 1000" using full by (simp add: slice_js_def)
    have cat: "concat (?c # cs) = drop (i * 1000) p"
    proof -
      have "concat (?c # cs) =
          drop (i * 1000) (take (i * 1000 + 1000) p) @ drop (i * 1000 + 1000) p"
        using cs(2) by (simp add: slice_js_def add.commute)
      also have "\<dots> = drop (i * 1000) p"
        using full by (intro drop_take_append_drop) simp_all
      finally show ?thesis .
    qed
    have len: "length (?c # cs) = (?n - i * 1000 + 999) div 1000"
      using cs(3) full by simp
    have ne: "?c \<noteq> []" using lc by auto
    show ?thesis
      apply (rule exI [of _ "?c # cs"])
      using w1 cs(1) cs(4) cat len lc ne by simp
  next
    case False
    then have iq: "i = ?n div 1000" using iN Suc.prems(2) by simp
    then have stop: "i * 1000 + ?n mod 1000 = ?n" by simp
    show ?thesis
    proof (cases "?n mod 1000 = 0")
      case True
      then have "sum_loop sv p N i ms w = (Inr ms, w)"
        using iN False by (simp add: sum_loop.simps [of sv p N i])
      with Suc.prems(1) have "w' = w" by simp
      moreover have "i * 1000 = ?n" using stop True by simp
      ultimately show ?thesis by simp
    next
      case nz: False
      let ?c = "slice_js p (i * 1000) (i * 1000 + ?n mod 1000)"
      obtain r w1 where an: "analyzeMood sv ?c w = (r, w1)"
        by (cases "analyzeMood sv ?c w")
      have w1: "sentimentRequests w1 = sentimentRequests w @ [?c]"
        using an by (auto simp: analyzeMood_def)
      from Suc.prems(1) iN False nz an obtain a where
        rec: "sum_loop sv p N (i + 1) (add_analysis ms a) w1 = (Inr ms', w')"
        by (cases r) (auto simp: sum_loop.simps [of sv p N i] Let_def)
      have "\<not> i + 1 < N" using False by simp
      from sum_loop_done [OF this] rec have "w' = w1" by simp
      moreover have c: "?c = drop (i * 1000) p" using stop by (simp add: slice_js_def)
      moreover have "length (drop (i * 1000) p) = ?n mod 1000" using stop by simp
      moreover have "(?n - i * 1000 + 999) div 1000 = 1"
        using stop nz by simp
      ultimately show ?thesis
        apply (intro exI [of _ "[?c]"])
        using w1 nz by simp
    qed
  qed
qed


lemma all_MoodType: "(k :: MoodType) \<in> {POSITIVE, NEGATIVE, NEUTRAL}"
  by (cases k) simp_all

lemma foldl_update_keys:
  "map fst ms = [POSITIVE, NEGATIVE, NEUTRAL] \<Longrightarrow>
   map fst (foldl (\<lambda>ms key. AList.update key (f ms key) ms) ms ks) =
     [POSITIVE, NEGATIVE, NEUTRAL]"
proof (induction ks arbitrary: ms)
  case Nil
  then show ?case by simp
next
  case (Cons k ks)
  have "k \<in> set (map fst ms)" using Cons.prems all_MoodType [of k] by simp
  then have "map fst (AList.update k (f ms k) ms) = [POSITIVE, NEGATIVE, NEUTRAL]"
    using Cons.prems by (simp add: update_keys)
  from Cons.IH [OF this] show ?case by simp
qed

lemma add_analysis_keys:
  "map fst ms = [POSITIVE, NEGATIVE, NEUTRAL] \<Longrightarrow>
   map fst (add_analysis ms a) = [POSITIVE, NEGATIVE, NEUTRAL]"
  unfolding add_analysis_def by (rule foldl_update_keys)

lemma sum_loop_keys:
  assumes "sum_loop sv p N i ms w = (Inr ms', w')"
    and "map fst ms = [POSITIVE, NEGATIVE, NEUTRAL]"
  shows "map fst ms' = [POSITIVE, NEGATIVE, NEUTRAL]"
  using assms
proof (induction "N - i" arbitrary: i ms w)
  case 0
  then show ?case by (simp add: sum_loop.simps [of sv p N i])
next
  case (Suc k)
  have k: "k = N - (i + 1)" using Suc.hyps(2) by simp
  show ?case
    using Suc.prems(1) Suc.hyps(1) [OF k _ add_analysis_keys [OF Suc.prems(2)]] Suc.prems(2)
    by (auto simp: sum_loop.simps [of sv p N i] Let_def split: if_splits prod.splits sum.splits)
qed

lemma sum_loop_frame:
  assumes "sum_loop sv p N i ms w = (r, w')"
  shows "summaryRequests w' = summaryRequests w \<and> saved w' = saved w"
  using assms
proof (induction "N - i" arbitrary: i ms w)
  case 0
  then show ?case by (simp add: sum_loop.simps [of sv p N i])
next
  case (Suc k)
  have k: "k = N - (i + 1)" using Suc.hyps(2) by simp
  show ?case
    using Suc.prems(1) Suc.hyps(1) [OF k]
    by (auto simp: sum_loop.simps [of sv p N i] Let_def analyzeMood_def
        split: if_splits prod.splits sum.splits)
qed

lemma keys_shape:
  "map fst st = [POSITIVE, NEGATIVE, NEUTRAL] \<Longrightarrow>
   \<exists>p n u. st = [(POSITIVE, p), (NEGATIVE, n), (NEUTRAL, u)]"
  by (cases st; cases "tl st"; cases "tl (tl st)") auto

lemma sumMoodAnalysis_total:
  assumes "sumMoodAnalysis sv fullContent w = (Inr (statistics, totalNumber), w')"
  shows "totalNumber = length (replace_img fullContent) div 1000 + 1"
  using assms by (auto simp: sumMoodAnalysis_def Let_def split: prod.splits sum.splits)

lemma sumMoodAnalysis_loop:
  assumes "sumMoodAnalysis sv fullContent w = (Inr (statistics, totalNumber), w')"
  shows "sum_loop sv (replace_img fullContent) (length (replace_img fullContent) div 1000 + 1)
           0 moodStatistics0 w = (Inr statistics, w')"
  using assms by (auto simp: sumMoodAnalysis_def Let_def split: prod.splits sum.splits)

lemma sumMoodAnalysis_shape:
  assumes "sumMoodAnalysis sv fullContent w = (Inr (statistics, totalNumber), w')"
  shows "\<exists>p n u. statistics = [(POSITIVE, p), (NEGATIVE, n), (NEUTRAL, u)]"
  using sum_loop_keys [OF sumMoodAnalysis_loop [OF assms]]
  by (intro keys_shape) (simp add: moodStatistics0_def)

lemma reduce_max_three:
  "reduce_max [(POSITIVE, p), (NEGATIVE, n), (NEUTRAL, u)] =
     Inr (if n \<le> p \<and> u \<le> p then (POSITIVE, p)
          else if u \<le> n then (NEGATIVE, n) else (NEUTRAL, u))"
  by (auto simp: reduce_max_def)

lemma divide_js_finite: "0 < b \<Longrightarrow> divide_js a b = Finite (a / of_nat b)"
  by (simp add: divide_js_def)


lemma ceiling_div_1000: "nat \<lceil>(of_nat n :: rat) / 1000\<rceil> = (n + 999) div 1000"
  by linarith

text \<open>The aggregation returns whenever the sentiment service answers every request.\<close>

lemma sum_loop_succeeds:
  assumes "\<And>history content. \<exists>a. clovaSentiment sv history content = Inr a"
  shows "\<exists>ms' w'. sum_loop sv p N i ms w = (Inr ms', w')"
proof (induction "N - i" arbitrary: i ms w)
  case 0
  then show ?case by (simp add: sum_loop.simps [of sv p N i])
next
  case (Suc k)
  have k: "k = N - (i + 1)" using Suc.hyps(2) by simp
  let ?stop = "if i < N - 1 then i * 1000 + 1000 else i * 1000 + length p mod 1000"
  let ?c = "slice_js p (i * 1000) ?stop"
  obtain a where a: "clovaSentiment sv (sentimentRequests w) ?c = Inr a"
    using assms by blast
  let ?w1 = "w\<lparr>sentimentRequests := sentimentRequests w @ [?c]\<rparr>"
  have iN: "i < N" using Suc.hyps(2) by simp
  show ?case
  proof (cases "i * 1000 = ?stop")
    case True
    then have "sum_loop sv p N i ms w = (Inr ms, w)"
      using iN by (simp add: sum_loop.simps [of sv p N i] Let_def)
    then show ?thesis by blast
  next
    case False
    then have "sum_loop sv p N i ms w = sum_loop sv p N (i + 1) (add_analysis ms a) ?w1"
      using iN a by (simp add: sum_loop.simps [of sv p N i] Let_def analyzeMood_def)
    with Suc.hyps(1) [OF k, of "add_analysis ms a" ?w1] show ?thesis by simp
  qed
qed

lemma sumMoodAnalysis_succeeds:
  assumes "\<And>history content. \<exists>a. clovaSentiment sv history content = Inr a"
  shows "\<exists>statistics w'. sumMoodAnalysis sv fullContent w =
           (Inr (statistics, length (replace_img fullContent) div 1000 + 1), w')"
proof -
  from sum_loop_succeeds [OF assms] obtain ms' w' where
    "sum_loop sv (replace_img fullContent) (length (replace_img fullContent) div 1000 + 1)
       0 moodStatistics0 w = (Inr ms', w')"
    by blast
  then show ?thesis by (simp add: sumMoodAnalysis_def Let_def)
qed

section \<open>Example runs\<close>

lemma replace_img_plain: "0x3C \<notin> set s \<Longrightarrow> replace_img s = s"
  by (induction s) (auto simp: img_open_def)

lemma replace_img_text_of_length: "replace_img (text_of_length n) = text_of_length n"
  by (rule replace_img_plain) (simp add: text_of_length_def)

lemma length_text_of_length: "length (text_of_length n) = n"
  by (simp add: text_of_length_def)

lemma slice_js_text_of_length:
  "slice_js (text_of_length n) a b = text_of_length (min b n - a)"
  by (simp add: slice_js_def text_of_length_def)

lemma add_analysis_scores:
  "add_analysis (scores p n u) (scores p' n' u') = scores (p + p') (n + n') (u + u')"
  by (simp add: add_analysis_def scores_def entry_def)

lemma clovaSentiment_constant:
  "clovaSentiment (constant_services a body) = (\<lambda>history content. Inr a)"
  by (simp add: constant_services_def)

lemmas run_sumMoodAnalysis =
  sumMoodAnalysis_def replace_img_text_of_length length_text_of_length sum_loop.simps
  analyzeMood_def clovaSentiment_constant slice_js_text_of_length moodStatistics0_def
  add_analysis_scores [unfolded scores_def] scores_def Let_def

lemma sumMoodAnalysis_2500:
  "sumMoodAnalysis (constant_services (scores 30 0 0) body) (text_of_length 2500) world0 =
     (Inr (scores 90 0 0, 3),
      world0\<lparr>sentimentRequests :=
        [text_of_length 1000, text_of_length 1000, text_of_length 500]\<rparr>)"
  by (simp add: run_sumMoodAnalysis world0_def)

lemma sumMoodAnalysis_1000:
  "sumMoodAnalysis (constant_services (scores 60 10 5) body) (text_of_length 1000) world0 =
     (Inr (scores 60 10 5, 2), world0\<lparr>sentimentRequests := [text_of_length 1000]\<rparr>)"
  by (simp add: run_sumMoodAnalysis world0_def)

lemma sumMoodAnalysis_999:
  "sumMoodAnalysis (constant_services (scores 60 10 5) body) (text_of_length 999) world0 =
     (Inr (scores 60 10 5, 1), world0\<lparr>sentimentRequests := [text_of_length 999]\<rparr>)"
  by (simp add: run_sumMoodAnalysis world0_def)

lemma sumMoodAnalysis_1:
  "sumMoodAnalysis (constant_services (scores p n u) body) (text_of_length 1) w =
     (Inr (scores p n u, 1),
      w\<lparr>sentimentRequests := sentimentRequests w @ [text_of_length 1]\<rparr>)"
  by (simp add: run_sumMoodAnalysis)

lemma judgeOverallMood_scores:
  "sumMoodAnalysis sv fullContent w = (Inr (scores p n u, Suc k), w') \<Longrightarrow>
   judgeOverallMood sv fullContent w =
     (Inr (mood_of (if n \<le> p \<and> u \<le> p then POSITIVE else if u \<le> n then NEGATIVE else NEUTRAL)
             (Finite ((if n \<le> p \<and> u \<le> p then p else if u \<le> n then n else u)
                / of_nat (Suc k)))), w')"
  by (simp add: judgeOverallMood_def scores_def reduce_max_three divide_js_def)

section \<open>Empty content\<close>

lemma sumMoodAnalysis_empty:
  "replace_img fullContent = [] \<Longrightarrow>
   sumMoodAnalysis sv fullContent w = (Inr (moodStatistics0, 1), w)"
  by (simp add: sumMoodAnalysis_def sum_loop.simps [of _ _ _ 0])

lemma replace_img_img_only: "replace_img img_only = []"
  by (simp add: img_only_def img_open_def tag_close_def)

text \<open>
  Claim C1, as amended. For every input whose content is empty once the image markup is
  removed, no chunk is analysed (the world is left as it was) and the classification
  returns GOOD, without an error: nothing treats the empty content apart, the three sums
  are zero, POSITIVE comes first among them and the figure is not above 50.
\<close>

theorem C1_empty_content_is_GOOD:
  assumes "replace_img fullContent = []"
  shows "judgeOverallMood sv fullContent w = (Inr GOOD, w)"
  using sumMoodAnalysis_empty [OF assms]
  by (simp add: judgeOverallMood_def moodStatistics0_def reduce_max_def divide_js_def
      mood_of_def)

theorem C1_empty_content_is_GOOD_witness:
  "replace_img img_only = [] \<and>
   judgeOverallMood (constant_services [] Null) img_only world0 = (Inr GOOD, world0)"
  using C1_empty_content_is_GOOD [OF replace_img_img_only] replace_img_img_only by simp

text \<open>
  Claim C1 as the spec states it (the result is SO_SO) fails on the text \<^verbatim>\<open><img>\<close>, whose
  cleaned content is empty.
\<close>

theorem C1_empty_content_not_SO_SO:
  "replace_img img_only = [] \<and>
   fst (judgeOverallMood (constant_services [] Null) img_only world0) \<noteq> Inr SO_SO"
  by (simp add: replace_img_img_only sumMoodAnalysis_empty judgeOverallMood_def
      moodStatistics0_def reduce_max_def divide_js_def mood_of_def)

section \<open>Chunks and the denominator\<close>

lemma sumMoodAnalysis_chunks:
  assumes "sumMoodAnalysis sv fullContent w = (Inr (statistics, totalNumber), w')"
  shows "\<exists>cs. sentimentRequests w' = sentimentRequests w @ cs
           \<and> concat cs = replace_img fullContent
           \<and> length cs = (length (replace_img fullContent) + 999) div 1000
           \<and> (\<forall>c\<in>set cs. 0 < length c \<and> length c \<le> 1000)"
  using sum_loop_chunks [OF sumMoodAnalysis_loop [OF assms]] by simp

text \<open>
  The count that is returned against the chunks that were sent: one more when the length
  of the cleaned text is a multiple of 1000, the same otherwise.
\<close>

lemma sumMoodAnalysis_count:
  assumes "sumMoodAnalysis sv fullContent w = (Inr (statistics, totalNumber), w')"
  shows "\<exists>cs. sentimentRequests w' = sentimentRequests w @ cs \<and>
           totalNumber =
             (if length (replace_img fullContent) mod 1000 = 0 then length cs + 1
              else length cs)"
proof -
  from sumMoodAnalysis_chunks [OF assms] obtain cs where
    cs: "sentimentRequests w' = sentimentRequests w @ cs"
      "length cs = (length (replace_img fullContent) + 999) div 1000"
    by blast
  let ?n = "length (replace_img fullContent)"
  have "?n div 1000 + 1 = (if ?n mod 1000 = 0 then (?n + 999) div 1000 + 1
      else (?n + 999) div 1000)"
  proof (cases "?n mod 1000 = 0")
    case True
    then obtain q where q: "?n = 1000 * q" by auto
    have "(1000 * q + 999) div 1000 = q" by simp
    then show ?thesis using True q by simp
  next
    case False
    define q r where "q = ?n div 1000" and "r = ?n mod 1000"
    have r: "0 < r" "r < 1000" using False by (simp_all add: r_def)
    have "?n + 999 = (q + 1) * 1000 + (r - 1)"
      using r by (simp add: q_def r_def)
    also have "\<dots> div 1000 = q + 1"
      using r by simp
    finally have "(?n + 999) div 1000 = ?n div 1000 + 1" by (simp add: q_def)
    then show ?thesis using False by simp
  qed
  with cs sumMoodAnalysis_total [OF assms] show ?thesis
    by (intro exI [of _ cs]) simp
qed

text \<open>
  Claim C2. The count returned with the statistics, which \<^verbatim>\<open>judgeOverallMood\<close> divides by, is
  meant to be the number of chunks analysed. On a text of 1000 letters one chunk is sent to
  the sentiment endpoint and the count is 2: with the scores 60, 10 and 5 the figure is 30
  and the mood GOOD, where the same scores on 999 letters give the figure 60 and SO_GOOD.
\<close>

theorem C2_count_exceeds_chunks_sent:
  "sumMoodAnalysis (constant_services (scores 60 10 5) Null) (text_of_length 1000) world0 =
     (Inr (scores 60 10 5, 2), world0\<lparr>sentimentRequests := [text_of_length 1000]\<rparr>) \<and>
   fst (judgeOverallMood (constant_services (scores 60 10 5) Null) (text_of_length 1000) world0)
     = Inr GOOD \<and>
   fst (judgeOverallMood (constant_services (scores 60 10 5) Null) (text_of_length 999) world0)
     = Inr SO_GOOD"
  using judgeOverallMood_scores [OF sumMoodAnalysis_1000 [unfolded numeral_2_eq_2]]
    judgeOverallMood_scores [OF sumMoodAnalysis_999 [unfolded One_nat_def]]
  by (simp add: sumMoodAnalysis_1000 mood_of_def)

text \<open>
  Claim C5. When the analysis of a text succeeds, the number of chunks sent to the sentiment
  endpoint is the ceiling of \<open>n / 1000\<close> when \<open>n mod 1000 \<noteq> 0\<close>, \<open>n div 1000\<close> when
  \<open>n mod 1000 = 0\<close> and \<open>0 < n\<close>, and 0 when \<open>n = 0\<close>, for \<open>n\<close> the length of the cleaned text.
\<close>

theorem C5_chunk_count:
  assumes "sumMoodAnalysis sv fullContent w = (Inr (statistics, totalNumber), w')"
  shows "\<exists>cs. sentimentRequests w' = sentimentRequests w @ cs \<and>
           length cs =
             (let n = length (replace_img fullContent)
              in if n mod 1000 \<noteq> 0 then nat \<lceil>(of_nat n :: rat) / 1000\<rceil>
                 else if 0 < n then n div 1000
                 else 0)"
proof -
  from sumMoodAnalysis_chunks [OF assms] obtain cs where
    cs: "sentimentRequests w' = sentimentRequests w @ cs"
      "length cs = (length (replace_img fullContent) + 999) div 1000"
    by blast
  let ?n = "length (replace_img fullContent)"
  have "(?n + 999) div 1000 =
      (if ?n mod 1000 \<noteq> 0 then nat \<lceil>(of_nat ?n :: rat) / 1000\<rceil>
       else if 0 < ?n then ?n div 1000 else 0)"
  proof (cases "?n mod 1000 = 0")
    case True
    then obtain q where q: "?n = 1000 * q" by auto
    have "(1000 * q + 999) div 1000 = q" by simp
    then show ?thesis using True q by simp
  next
    case False
    then show ?thesis by (simp only: ceiling_div_1000 if_True not_False_eq_True)
  qed
  with cs show ?thesis by (intro exI [of _ cs]) (simp only: Let_def simp_thms)
qed

theorem C5_chunk_count_witness:
  "sumMoodAnalysis (constant_services (scores 30 0 0) Null) (text_of_length 2500) world0 =
     (Inr (scores 90 0 0, 3),
      world0\<lparr>sentimentRequests :=
        [text_of_length 1000, text_of_length 1000, text_of_length 500]\<rparr>) \<and>
   length [text_of_length 1000, text_of_length 1000, text_of_length 500] =
     nat \<lceil>(2500 :: rat) / 1000\<rceil>"
proof -
  note run = sumMoodAnalysis_2500 [of Null]
  from C5_chunk_count [OF run] obtain cs where
    "[text_of_length 1000, text_of_length 1000, text_of_length 500] = cs"
    "length cs = nat \<lceil>(2500 :: rat) / 1000\<rceil>"
    by (auto simp: world0_def replace_img_text_of_length length_text_of_length)
  with run show ?thesis by simp
qed

text \<open>
  Claim C6. When the analysis of a text succeeds, the chunks sent to the sentiment endpoint,
  joined in order, are the cleaned text; no chunk is empty and none is longer than 1000.
\<close>

theorem C6_chunks_concat:
  assumes "sumMoodAnalysis sv fullContent w = (Inr (statistics, totalNumber), w')"
  shows "\<exists>cs. sentimentRequests w' = sentimentRequests w @ cs \<and>
           concat cs = replace_img fullContent \<and>
           (\<forall>c\<in>set cs. 0 < length c \<and> length c \<le> 1000)"
  using sumMoodAnalysis_chunks [OF assms] by blast

theorem C6_chunks_concat_witness:
  "sumMoodAnalysis (constant_services (scores 30 0 0) Null) (text_of_length 2500) world0 =
     (Inr (scores 90 0 0, 3),
      world0\<lparr>sentimentRequests :=
        [text_of_length 1000, text_of_length 1000, text_of_length 500]\<rparr>) \<and>
   concat [text_of_length 1000, text_of_length 1000, text_of_length 500] =
     replace_img (text_of_length 2500)"
proof -
  note run = sumMoodAnalysis_2500 [of Null]
  from C6_chunks_concat [OF run] obtain cs where
    "[text_of_length 1000, text_of_length 1000, text_of_length 500] = cs"
    "concat cs = replace_img (text_of_length 2500)"
    by (auto simp: world0_def)
  with run show ?thesis by simp
qed

section \<open>The classification\<close>



text \<open>
  Claim C3. Whenever the aggregation returns statistics and a count, with \<open>type\<close> the winning
  category, \<open>summed\<close> its sum and \<open>ratio = summed / count\<close>: if the winner is POSITIVE the
  mood is SO_GOOD when \<open>ratio > 50\<close> and GOOD when \<open>ratio \<le> 50\<close>; if NEGATIVE, SO_BAD when
  \<open>ratio > 50\<close> and BAD when \<open>ratio \<le> 50\<close>; if NEUTRAL, SO_SO whatever the ratio.
\<close>

theorem C3_classification_table:
  assumes "sumMoodAnalysis sv fullContent w = (Inr (statistics, totalNumber), w')"
    and "reduce_max statistics = Inr (type, summed)"
    and "ratio = summed / of_nat totalNumber"
    and "judgeOverallMood sv fullContent w = (result, w'')"
  shows "(type = POSITIVE \<and> 50 < ratio \<longrightarrow> result = Inr SO_GOOD) \<and>
         (type = POSITIVE \<and> ratio \<le> 50 \<longrightarrow> result = Inr GOOD) \<and>
         (type = NEGATIVE \<and> 50 < ratio \<longrightarrow> result = Inr SO_BAD) \<and>
         (type = NEGATIVE \<and> ratio \<le> 50 \<longrightarrow> result = Inr BAD) \<and>
         (type = NEUTRAL \<longrightarrow> result = Inr SO_SO)"
proof -
  have "0 < totalNumber" using sumMoodAnalysis_total [OF assms(1)] by simp
  then have "divide_js summed totalNumber = Finite ratio"
    using assms(3) by (simp add: divide_js_def)
  then have "result = Inr (mood_of type (Finite ratio))"
    using assms(1,2,4) by (simp add: judgeOverallMood_def)
  then show ?thesis by (simp add: mood_of_def)
qed

text \<open>The five rows of the table, on one chunk.\<close>

theorem C3_classification_table_witness:
  "fst (judgeOverallMood (constant_services (scores 60 10 5) Null) (text_of_length 1) world0)
     = Inr SO_GOOD \<and>
   fst (judgeOverallMood (constant_services (scores 40 10 5) Null) (text_of_length 1) world0)
     = Inr GOOD \<and>
   fst (judgeOverallMood (constant_services (scores 10 60 5) Null) (text_of_length 1) world0)
     = Inr SO_BAD \<and>
   fst (judgeOverallMood (constant_services (scores 10 40 5) Null) (text_of_length 1) world0)
     = Inr BAD \<and>
   fst (judgeOverallMood (constant_services (scores 10 5 60) Null) (text_of_length 1) world0)
     = Inr SO_SO"
proof -
  have run: "sumMoodAnalysis (constant_services (scores p n u) Null) (text_of_length 1) world0 =
      (Inr (scores p n u, 1), world0\<lparr>sentimentRequests := [text_of_length 1]\<rparr>)"
    for p n u
    using sumMoodAnalysis_1 [of p n u Null world0] by (simp add: world0_def)
  have winner:
    "reduce_max (scores 60 10 5) = Inr (POSITIVE, 60)"
    "reduce_max (scores 40 10 5) = Inr (POSITIVE, 40)"
    "reduce_max (scores 10 60 5) = Inr (NEGATIVE, 60)"
    "reduce_max (scores 10 40 5) = Inr (NEGATIVE, 40)"
    "reduce_max (scores 10 5 60) = Inr (NEUTRAL, 60)"
    by (simp_all add: scores_def reduce_max_three)
  show ?thesis
    using C3_classification_table [OF run winner(1) refl surjective_pairing]
      C3_classification_table [OF run winner(2) refl surjective_pairing]
      C3_classification_table [OF run winner(3) refl surjective_pairing]
      C3_classification_table [OF run winner(4) refl surjective_pairing]
      C3_classification_table [OF run winner(5) refl surjective_pairing]
    by simp
qed

text \<open>
  Claim C4. The statistics hold the three sums in the order POSITIVE, NEGATIVE, NEUTRAL, and
  the winning category is the first in that order whose sum is the greatest: POSITIVE when
  its sum is not below the two others, else NEGATIVE when its sum is not below that of
  NEUTRAL, else NEUTRAL. The classification is made on that winner.
\<close>

theorem C4_tie_break:
  assumes "sumMoodAnalysis sv fullContent w = (Inr (statistics, totalNumber), w')"
  shows "\<exists>p n u type summed.
           statistics = [(POSITIVE, p), (NEGATIVE, n), (NEUTRAL, u)] \<and>
           (type, summed) =
             (if n \<le> p \<and> u \<le> p then (POSITIVE, p)
              else if u \<le> n then (NEGATIVE, n)
              else (NEUTRAL, u)) \<and>
           reduce_max statistics = Inr (type, summed) \<and>
           judgeOverallMood sv fullContent w =
             (Inr (mood_of type (divide_js summed totalNumber)), w')"
proof -
  from sumMoodAnalysis_shape [OF assms] obtain p n u where
    st: "statistics = [(POSITIVE, p), (NEGATIVE, n), (NEUTRAL, u)]" by blast
  obtain type summed where
    ts: "(type, summed) =
      (if n \<le> p \<and> u \<le> p then (POSITIVE, p)
       else if u \<le> n then (NEGATIVE, n) else (NEUTRAL, u))"
    by (metis surj_pair)
  have r: "reduce_max statistics = Inr (type, summed)"
    unfolding st reduce_max_three ts ..
  have "judgeOverallMood sv fullContent w =
      (Inr (mood_of type (divide_js summed totalNumber)), w')"
    using assms r by (simp add: judgeOverallMood_def)
  with st ts r show ?thesis by blast
qed

text \<open>
  The three-way tie of the claim: the sums 10, 10 and 10 on one chunk. POSITIVE wins, the
  figure is 10 and the mood is GOOD.
\<close>

theorem C4_tie_break_witness:
  "sumMoodAnalysis (constant_services (scores 10 10 10) Null) (text_of_length 1) world0 =
     (Inr (scores 10 10 10, 1), world0\<lparr>sentimentRequests := [text_of_length 1]\<rparr>) \<and>
   reduce_max (scores 10 10 10) = Inr (POSITIVE, 10) \<and>
   judgeOverallMood (constant_services (scores 10 10 10) Null) (text_of_length 1) world0 =
     (Inr GOOD, world0\<lparr>sentimentRequests := [text_of_length 1]\<rparr>)"
proof -
  have run: "sumMoodAnalysis (constant_services (scores 10 10 10) Null) (text_of_length 1) world0 =
      (Inr (scores 10 10 10, 1), world0\<lparr>sentimentRequests := [text_of_length 1]\<rparr>)"
    using sumMoodAnalysis_1 [of 10 10 10 Null world0] by (simp add: world0_def)
  from C4_tie_break [OF run] obtain type summed where
    "(type, summed) = (POSITIVE, 10)"
    "reduce_max (scores 10 10 10) = Inr (type, summed)"
    "judgeOverallMood (constant_services (scores 10 10 10) Null) (text_of_length 1) world0 =
       (Inr (mood_of type (divide_js summed 1)), world0\<lparr>sentimentRequests := [text_of_length 1]\<rparr>)"
    by (auto simp: scores_def)
  then show ?thesis using run by (simp add: mood_of_def divide_js_def)
qed

section \<open>Objects, frames and the runs of the examples\<close>

lemma get_prop_set_prop:
  "get_prop (set_prop key v ob) key' = (if key' = key then v else get_prop ob key')"
  by (simp add: get_prop_def set_prop_def update_conv')

lemma map_of_plainToClass:
  "map_of (plainToClass dto) key = (if take 3 key \<noteq> ''tag'' then map_of dto key else None)"
  unfolding plainToClass_def by (induction dto) auto

lemma get_prop_plainToClass:
  "get_prop (plainToClass dto) key =
     (if take 3 key \<noteq> ''tag'' then get_prop dto key else Undefined)"
  by (simp add: get_prop_def map_of_plainToClass)

lemma get_prop_absent: "key \<notin> fst ` set ob \<Longrightarrow> get_prop ob key = Undefined"
proof -
  assume "key \<notin> fst ` set ob"
  then have "map_of ob key = None" by (simp add: map_of_eq_None_iff)
  then show ?thesis by (simp add: get_prop_def)
qed

lemma copy_keys:
  "get_prop
     (foldl (\<lambda>diary key.
               if truthy (get_prop dto key) then set_prop key (get_prop dto key) diary
               else diary) d ks) key =
   (if key \<in> set ks \<and> truthy (get_prop dto key) then get_prop dto key
    else get_prop d key)"
  by (induction ks arbitrary: d) (auto simp: get_prop_set_prop)

lemma get_prop_copy_truthy:
  "get_prop (copy_truthy dto d) key =
     (if truthy (get_prop dto key) then get_prop dto key else get_prop d key)"
proof (cases "key \<in> fst ` set dto")
  case True
  then show ?thesis by (simp add: copy_truthy_def copy_keys)
next
  case False
  then show ?thesis by (simp add: copy_truthy_def copy_keys get_prop_absent)
qed

lemma judgeOverallMood_frame:
  assumes "judgeOverallMood sv fullContent w = (r, w')"
  shows "summaryRequests w' = summaryRequests w \<and> saved w' = saved w"
proof -
  obtain r0 w0 where l: "sum_loop sv (replace_img fullContent)
      (length (replace_img fullContent) div 1000 + 1) 0 moodStatistics0 w = (r0, w0)"
    by (cases "sum_loop sv (replace_img fullContent)
      (length (replace_img fullContent) div 1000 + 1) 0 moodStatistics0 w")
  have "w' = w0"
    using assms l
    by (auto simp: judgeOverallMood_def sumMoodAnalysis_def Let_def
        split: sum.splits prod.splits)
  with sum_loop_frame [OF l] show ?thesis by simp
qed

lemma judgeOverallMood_of_frame:
  assumes "judgeOverallMood_of sv content w = (r, w')"
  shows "summaryRequests w' = summaryRequests w \<and> saved w' = saved w"
  using assms judgeOverallMood_frame
  by (cases content) (auto simp: judgeOverallMood_of_def)

lemma getSummary_frame:
  assumes "getSummary sv title content w = (r, w')"
  shows "sentimentRequests w' = sentimentRequests w \<and> saved w' = saved w"
  using assms
  by (cases content) (auto simp: getSummary_def Let_def split: sum.splits)

lemma saveDiary_unfold:
  assumes "mapTagNameToTagType sv (get_prop dto ''tagNames'') = Inr tags"
  shows "saveDiary sv user dto w =
     (let diary = set_prop ''tags'' tags (set_prop ''author'' (Obj user) (plainToClass dto))
      in case getSummary sv (get_prop dto ''title'') (get_prop dto ''content'') w of
           (Inl e, w1) \<Rightarrow> (Inl e, w1)
         | (Inr summary, w1) \<Rightarrow>
             (case judgeOverallMood_of sv (get_prop dto ''content'') w1 of
                (Inl e, w2) \<Rightarrow> (Inl e, w2)
              | (Inr mood, w2) \<Rightarrow>
                  (Inr (), w2\<lparr>saved := saved w2 @
                     [set_prop ''mood'' (Enum mood) (set_prop ''summary'' summary diary)]\<rparr>)))"
  using assms
  by (simp add: saveDiary_def Let_def get_prop_set_prop get_prop_plainToClass save_def
      split: sum.splits prod.splits)

lemma updateDiary_unfold:
  assumes "findDiary sv user diaryId False = Inr existing"
    and "mapTagNameToTagType sv (get_prop dto ''tagNames'') = Inr tags"
  shows "updateDiary sv diaryId user dto w =
     (let diary = copy_truthy dto (set_prop ''tags'' tags existing)
      in if truthy (get_prop dto ''content'') then
           (case getSummary sv (get_prop diary ''title'') (get_prop dto ''content'') w of
              (Inl e, w1) \<Rightarrow> (Inl e, w1)
            | (Inr summary, w1) \<Rightarrow>
                (case judgeOverallMood_of sv (get_prop dto ''content'') w1 of
                   (Inl e, w2) \<Rightarrow> (Inl e, w2)
                 | (Inr mood, w2) \<Rightarrow>
                     (Inr (set_prop ''mood'' (Enum mood) (set_prop ''summary'' summary diary)),
                      w2\<lparr>saved := saved w2 @
                        [set_prop ''mood'' (Enum mood)
                           (set_prop ''summary'' summary diary)]\<rparr>)))
         else (Inr diary, w\<lparr>saved := saved w @ [diary]\<rparr>))"
  using assms
  by (simp add: updateDiary_def Let_def save_def split: sum.splits prod.splits)

lemma judgeOverallMood_3:
  "judgeOverallMood (constant_services (scores 60 10 5) body) (text_of_length 3) w =
     (Inr SO_GOOD, w\<lparr>sentimentRequests := sentimentRequests w @ [text_of_length 3]\<rparr>)"
proof -
  have "sumMoodAnalysis (constant_services (scores 60 10 5) body) (text_of_length 3) w =
      (Inr (scores 60 10 5, Suc 0),
       w\<lparr>sentimentRequests := sentimentRequests w @ [text_of_length 3]\<rparr>)"
    by (simp add: run_sumMoodAnalysis)
  from judgeOverallMood_scores [OF this] show ?thesis by (simp add: mood_of_def)
qed

lemma getSummary_error_body:
  "getSummary (constant_services a error_body) title (Str s) w =
     (Inr Undefined, w\<lparr>summaryRequests := summaryRequests w @ [(title, take 2000 s)]\<rparr>)"
  by (simp add: getSummary_def constant_services_def error_body_def get_prop_def)

lemma getSummary_failing:
  "getSummary failing_summary_services title (Str s) w =
     (Inl FetchError, w\<lparr>summaryRequests := summaryRequests w @ [(title, take 2000 s)]\<rparr>)"
  by (simp add: getSummary_def failing_summary_services_def constant_services_def)

lemma example_dto_props:
  "get_prop example_dto ''title'' = Str (text_of_length 2)"
  "get_prop example_dto ''content'' = Str (text_of_length 3)"
  "get_prop example_dto ''tagNames'' = Arr []"
  by (simp_all add: example_dto_def get_prop_def)

lemma findDiary_example:
  "findDiary diary_services example_user 5 False = Inr example_diary"
  by (simp add: findDiary_def existsDiary_def checkAuthorization_def diary_services_def
      constant_services_def example_diary_def example_user_def get_prop_def)

lemma update_dto_props:
  "get_prop update_dto ''tagNames'' = Arr []"
  "\<not> truthy (get_prop update_dto ''content'')"
  "\<not> truthy (get_prop update_dto ''summary'')"
  "\<not> truthy (get_prop update_dto ''mood'')"
  "get_prop update_dto ''title'' = Str (text_of_length 2)"
  by (simp_all add: update_dto_def get_prop_def)

section \<open>Summary\<close>

text \<open>
  Claim C8, as amended. In \<^verbatim>\<open>saveDiary\<close>, once the tags are mapped: when the summary step
  fails, \<^verbatim>\<open>saveDiary\<close> fails with the same error and nothing is saved; when it returns,
  what it returned is what the saved diary holds as its summary. The summary step fails with
  the error of the request when the request is rejected or its body cannot be decoded; when
  the body is an object without a \<^verbatim>\<open>summary\<close> property it does not fail and returns
  \<^verbatim>\<open>undefined\<close>.
\<close>

theorem C8_summary_as_returned:
  assumes "mapTagNameToTagType sv (get_prop dto ''tagNames'') = Inr tags"
    and "getSummary sv (get_prop dto ''title'') (get_prop dto ''content'') w = (r, w1)"
  shows "(\<forall>e. r = Inl e \<longrightarrow>
            saveDiary sv user dto w = (Inl e, w1) \<and> saved w1 = saved w) \<and>
         (\<forall>summary mood w2.
            r = Inr summary \<and>
            judgeOverallMood_of sv (get_prop dto ''content'') w1 = (Inr mood, w2) \<longrightarrow>
            (\<exists>d. saveDiary sv user dto w = (Inr (), w2\<lparr>saved := saved w @ [d]\<rparr>) \<and>
                 get_prop d ''summary'' = summary)) \<and>
         (\<forall>s e. get_prop dto ''content'' = Str s \<and>
            clovaSummary sv (summaryRequests w) (get_prop dto ''title'', take 2000 s) = Inl e
            \<longrightarrow> r = Inl e) \<and>
         (\<forall>s body. get_prop dto ''content'' = Str s \<and>
            clovaSummary sv (summaryRequests w) (get_prop dto ''title'', take 2000 s)
              = Inr (Obj body) \<and>
            map_of body ''summary'' = None
            \<longrightarrow> r = Inr Undefined)"
proof -
  have fails: "saveDiary sv user dto w = (Inl e, w1) \<and> saved w1 = saved w"
    if "r = Inl e" for e
    using that assms(2) getSummary_frame [OF assms(2)]
    by (simp add: saveDiary_unfold [OF assms(1)])
  have stores: "\<exists>d. saveDiary sv user dto w = (Inr (), w2\<lparr>saved := saved w @ [d]\<rparr>) \<and>
      get_prop d ''summary'' = summary"
    if "r = Inr summary"
      and "judgeOverallMood_of sv (get_prop dto ''content'') w1 = (Inr mood, w2)"
    for summary mood w2
  proof -
    have "saved w2 = saved w"
      using getSummary_frame [OF assms(2)] judgeOverallMood_of_frame [OF that(2)] by simp
    then show ?thesis
      using that assms(2)
      by (intro exI [of _ "set_prop ''mood'' (Enum mood) (set_prop ''summary'' summary
            (set_prop ''tags'' tags (set_prop ''author'' (Obj user) (plainToClass dto))))"])
        (simp add: saveDiary_unfold [OF assms(1)] get_prop_set_prop)
  qed
  have rejected: "r = Inl e"
    if "get_prop dto ''content'' = Str s"
      and "clovaSummary sv (summaryRequests w) (get_prop dto ''title'', take 2000 s) = Inl e"
    for s e
    using that assms(2) by (simp add: getSummary_def)
  have missing: "r = Inr Undefined"
    if "get_prop dto ''content'' = Str s"
      and "clovaSummary sv (summaryRequests w) (get_prop dto ''title'', take 2000 s)
        = Inr (Obj body)"
      and "map_of body ''summary'' = None"
    for s body
    using that assms(2) by (simp add: getSummary_def get_prop_def)
  from fails stores rejected missing show ?thesis by blast
qed

theorem C8_summary_as_returned_witness:
  "saveDiary failing_summary_services example_user example_dto world0 =
     (Inl FetchError,
      world0\<lparr>summaryRequests := [(Str (text_of_length 2), text_of_length 3)]\<rparr>) \<and>
   getSummary (constant_services (scores 60 10 5) error_body)
      (get_prop example_dto ''title'') (get_prop example_dto ''content'') world0 =
     (Inr Undefined,
      world0\<lparr>summaryRequests := [(Str (text_of_length 2), text_of_length 3)]\<rparr>) \<and>
   (\<exists>d w2. saveDiary (constant_services (scores 60 10 5) error_body) example_user
              example_dto world0 = (Inr (), w2\<lparr>saved := saved world0 @ [d]\<rparr>) \<and>
           get_prop d ''summary'' = Undefined)"
proof -
  let ?req = "[(Str (text_of_length 2), text_of_length 3)]"
  let ?w1 = "world0\<lparr>summaryRequests := ?req\<rparr>"
  have tags_f: "mapTagNameToTagType failing_summary_services
      (get_prop example_dto ''tagNames'') = Inr (Arr [])"
    by (simp add: example_dto_props failing_summary_services_def constant_services_def)
  have sum_f: "getSummary failing_summary_services (get_prop example_dto ''title'')
      (get_prop example_dto ''content'') world0 = (Inl FetchError, ?w1)"
    by (simp add: example_dto_props getSummary_failing length_text_of_length world0_def)
  have fails: "saveDiary failing_summary_services example_user example_dto world0 =
      (Inl FetchError, ?w1)"
    using C8_summary_as_returned [OF tags_f sum_f] by blast
  let ?sv = "constant_services (scores 60 10 5) error_body"
  have tags: "mapTagNameToTagType ?sv (get_prop example_dto ''tagNames'') = Inr (Arr [])"
    by (simp add: example_dto_props constant_services_def)
  have sum: "getSummary ?sv (get_prop example_dto ''title'')
      (get_prop example_dto ''content'') world0 = (Inr Undefined, ?w1)"
    by (simp add: example_dto_props getSummary_error_body length_text_of_length world0_def)
  have mood: "judgeOverallMood_of ?sv (get_prop example_dto ''content'') ?w1 =
      (Inr SO_GOOD, ?w1\<lparr>sentimentRequests := sentimentRequests ?w1 @ [text_of_length 3]\<rparr>)"
    by (simp add: example_dto_props judgeOverallMood_of_def judgeOverallMood_3)
  have "\<exists>d w2. saveDiary ?sv example_user example_dto world0 =
      (Inr (), w2\<lparr>saved := saved world0 @ [d]\<rparr>) \<and> get_prop d ''summary'' = Undefined"
    using C8_summary_as_returned [OF tags sum] mood by blast
  with fails sum show ?thesis by blast
qed

text \<open>
  Claim C8 as the spec states it (a response without the \<^verbatim>\<open>summary\<close> field makes the summary
  step fail) fails on a response that carries an error and no summary: the summary step
  returns \<^verbatim>\<open>undefined\<close> and the diary is saved with it.
\<close>

theorem C8_missing_summary_is_saved:
  "getSummary (constant_services (scores 60 10 5) error_body)
      (Str (text_of_length 2)) (Str (text_of_length 3)) world0 =
     (Inr Undefined,
      world0\<lparr>summaryRequests := [(Str (text_of_length 2), text_of_length 3)]\<rparr>) \<and>
   saveDiary (constant_services (scores 60 10 5) error_body) example_user example_dto world0 =
     (Inr (),
      \<lparr>sentimentRequests = [text_of_length 3],
       summaryRequests = [(Str (text_of_length 2), text_of_length 3)],
       saved = [[(''title'', Str (text_of_length 2)), (''content'', Str (text_of_length 3)),
                 (''author'', Obj example_user), (''tags'', Arr []),
                 (''summary'', Undefined), (''mood'', Enum SO_GOOD)]]\<rparr>)"
proof -
  have tags: "mapTagNameToTagType (constant_services (scores 60 10 5) error_body)
      (get_prop example_dto ''tagNames'') = Inr (Arr [])"
    by (simp add: example_dto_props constant_services_def)
  show ?thesis
    by (simp add: saveDiary_unfold [OF tags] example_dto_props getSummary_error_body
        judgeOverallMood_of_def judgeOverallMood_3
        length_text_of_length world0_def Let_def)
      (simp add: example_dto_def plainToClass_def set_prop_def)
qed

section \<open>Update\<close>

text \<open>
  Claim C10, as amended. When \<^verbatim>\<open>updateDiary\<close> succeeds on an existing diary, the diary it
  returns is the one it saved. If the content of the DTO is absent or falsy, no request is
  sent to the summary or to the sentiment endpoint, and the summary and the mood of the
  diary are left as they were unless the DTO itself carries a truthy summary or mood.
  \<^verbatim>\<open>tags\<close> is always replaced, by what the tag service makes of the tag names of the DTO,
  truthy or not (and then by a truthy \<^verbatim>\<open>tags\<close> of the DTO, if there is one). Every other
  property of the diary is overwritten by the property of the DTO of the same name exactly
  when that one is truthy; the summary and the mood are computed anew when the content is
  truthy.
\<close>

theorem C10_update_copies_truthy:
  assumes "findDiary sv user diaryId False = Inr existing"
    and "mapTagNameToTagType sv (get_prop dto ''tagNames'') = Inr tags"
    and "updateDiary sv diaryId user dto w = (Inr updated, w')"
  shows "saved w' = saved w @ [updated] \<and>
         (\<not> truthy (get_prop dto ''content'') \<longrightarrow>
            sentimentRequests w' = sentimentRequests w \<and>
            summaryRequests w' = summaryRequests w \<and>
            (\<not> truthy (get_prop dto ''summary'') \<longrightarrow>
               get_prop updated ''summary'' = get_prop existing ''summary'') \<and>
            (\<not> truthy (get_prop dto ''mood'') \<longrightarrow>
               get_prop updated ''mood'' = get_prop existing ''mood'')) \<and>
         (\<forall>key. (truthy (get_prop dto ''content'') \<longrightarrow>
                   key \<noteq> ''summary'' \<and> key \<noteq> ''mood'') \<longrightarrow>
            get_prop updated key =
              (if truthy (get_prop dto key) then get_prop dto key
               else if key = ''tags'' then tags
               else get_prop existing key))"
proof (cases "truthy (get_prop dto ''content'')")
  case False
  let ?diary = "copy_truthy dto (set_prop ''tags'' tags existing)"
  have "updated = ?diary" and "w' = w\<lparr>saved := saved w @ [?diary]\<rparr>"
    using assms(3) False by (auto simp: updateDiary_unfold [OF assms(1,2)] Let_def)
  then show ?thesis
    using False by (simp add: get_prop_copy_truthy get_prop_set_prop)
next
  case True
  let ?diary = "copy_truthy dto (set_prop ''tags'' tags existing)"
  obtain r1 w1 where s: "getSummary sv (get_prop ?diary ''title'') (get_prop dto ''content'') w
      = (r1, w1)"
    by (cases "getSummary sv (get_prop ?diary ''title'') (get_prop dto ''content'') w")
  obtain r2 w2 where m: "judgeOverallMood_of sv (get_prop dto ''content'') w1 = (r2, w2)"
    by (cases "judgeOverallMood_of sv (get_prop dto ''content'') w1")
  from assms(3) True s m obtain summary mood where
    u: "updated = set_prop ''mood'' (Enum mood) (set_prop ''summary'' summary ?diary)"
    and w': "w' = w2\<lparr>saved := saved w2 @ [updated]\<rparr>"
    by (cases r1; cases r2) (auto simp: updateDiary_unfold [OF assms(1,2)] Let_def)
  have "saved w2 = saved w"
    using getSummary_frame [OF s] judgeOverallMood_of_frame [OF m] by simp
  then show ?thesis
    using True u w' by (simp add: get_prop_copy_truthy get_prop_set_prop)
qed

theorem C10_update_copies_truthy_witness:
  "findDiary diary_services example_user 5 False = Inr example_diary \<and>
   \<not> truthy (get_prop update_dto ''content'') \<and>
   (\<exists>updated. updateDiary diary_services 5 example_user update_dto world0 =
        (Inr updated, world0\<lparr>saved := [updated]\<rparr>) \<and>
      get_prop updated ''summary'' = Str [0x73] \<and>
      get_prop updated ''mood'' = Enum SO_BAD \<and>
      get_prop updated ''title'' = Str (text_of_length 2) \<and>
      get_prop updated ''content'' = Str [0x62])"
proof -
  have tags: "mapTagNameToTagType diary_services (get_prop update_dto ''tagNames'') = Inr (Arr [])"
    by (simp add: update_dto_props diary_services_def constant_services_def)
  let ?updated = "copy_truthy update_dto (set_prop ''tags'' (Arr []) example_diary)"
  have run: "updateDiary diary_services 5 example_user update_dto world0 =
      (Inr ?updated, world0\<lparr>saved := [?updated]\<rparr>)"
    by (simp add: updateDiary_unfold [OF findDiary_example tags] update_dto_props Let_def
        world0_def)
  have old: "get_prop example_diary ''summary'' = Str [0x73]"
    "get_prop example_diary ''mood'' = Enum SO_BAD"
    "get_prop example_diary ''content'' = Str [0x62]"
    by (simp_all add: example_diary_def get_prop_def)
  note frame = C10_update_copies_truthy [OF findDiary_example tags run]
  from frame update_dto_props(2,3,4) old(1,2)
  have kept: "get_prop ?updated ''summary'' = Str [0x73]"
    "get_prop ?updated ''mood'' = Enum SO_BAD"
    by simp_all
  from frame update_dto_props(2)
  have copy: "get_prop ?updated key =
      (if truthy (get_prop update_dto key) then get_prop update_dto key
       else if key = ''tags'' then Arr [] else get_prop example_diary key)" for key
    by blast
  have "get_prop ?updated ''title'' = Str (text_of_length 2)"
    using copy [of "''title''"] update_dto_props(5) by (simp add: text_of_length_def)
  moreover have "get_prop ?updated ''content'' = Str [0x62]"
    using copy [of "''content''"] update_dto_props(2) old(3) by simp
  ultimately have "get_prop ?updated ''summary'' = Str [0x73] \<and>
      get_prop ?updated ''mood'' = Enum SO_BAD \<and>
      get_prop ?updated ''title'' = Str (text_of_length 2) \<and>
      get_prop ?updated ''content'' = Str [0x62]"
    using kept by simp
  with run findDiary_example update_dto_props(2) show ?thesis by blast
qed

text \<open>
  Claim C10 as the spec states it fails twice on the stored diary of the example. Under the
  empty DTO, which has no truthy property at all, the tags of the diary are overwritten.
  Under a DTO whose content is \<^verbatim>\<open>null\<close> and which carries a summary, the summary of the
  diary is overwritten, and no request is sent.
\<close>

theorem C10_update_overwrites_tags_and_summary:
  "findDiary diary_services example_user 5 False = Inr example_diary \<and>
   get_prop [] ''content'' = Undefined \<and>
   get_prop [] ''tagNames'' = Undefined \<and>
   fst (updateDiary diary_services 5 example_user [] world0) =
     Inr (set_prop ''tags'' Undefined example_diary) \<and>
   get_prop example_diary ''tags'' = Arr [Str [0x74]] \<and>
   get_prop (set_prop ''tags'' Undefined example_diary) ''tags'' = Undefined \<and>
   get_prop summary_dto ''content'' = Null \<and>
   fst (updateDiary diary_services 5 example_user summary_dto world0) =
     Inr (set_prop ''summary'' (Str [0x7A]) (set_prop ''tags'' Undefined example_diary)) \<and>
   snd (updateDiary diary_services 5 example_user summary_dto world0) =
     world0\<lparr>saved :=
       [set_prop ''summary'' (Str [0x7A]) (set_prop ''tags'' Undefined example_diary)]\<rparr> \<and>
   get_prop example_diary ''summary'' = Str [0x73] \<and>
   get_prop (set_prop ''summary'' (Str [0x7A]) (set_prop ''tags'' Undefined example_diary))
     ''summary'' = Str [0x7A]"
proof -
  have tags0: "mapTagNameToTagType diary_services (get_prop [] ''tagNames'') = Inr Undefined"
    by (simp add: get_prop_def diary_services_def constant_services_def)
  have tags1: "mapTagNameToTagType diary_services (get_prop summary_dto ''tagNames'')
      = Inr Undefined"
    by (simp add: get_prop_def summary_dto_def diary_services_def constant_services_def)
  have run0: "updateDiary diary_services 5 example_user [] world0 =
      (Inr (set_prop ''tags'' Undefined example_diary),
       world0\<lparr>saved := [set_prop ''tags'' Undefined example_diary]\<rparr>)"
    by (simp add: updateDiary_unfold [OF findDiary_example tags0] copy_truthy_def
        get_prop_def world0_def Let_def)
  have falsy: "\<not> truthy (get_prop summary_dto ''content'')"
    by (simp add: summary_dto_def get_prop_def)
  have copy: "copy_truthy summary_dto d = set_prop ''summary'' (Str [0x7A]) d" for d
    by (simp add: copy_truthy_def summary_dto_def get_prop_def)
  have run1: "updateDiary diary_services 5 example_user summary_dto world0 =
      (Inr (set_prop ''summary'' (Str [0x7A]) (set_prop ''tags'' Undefined example_diary)),
       world0\<lparr>saved :=
         [set_prop ''summary'' (Str [0x7A]) (set_prop ''tags'' Undefined example_diary)]\<rparr>)"
    using falsy copy
    by (simp add: updateDiary_unfold [OF findDiary_example tags1] world0_def Let_def)
  show ?thesis
    by (simp add: findDiary_example run0 run1 get_prop_set_prop)
      (simp add: get_prop_def example_diary_def summary_dto_def)
qed

end
